theory Spec2Isabelle
  imports Main "HOL-Library.AList" "HOL-Library.Option_ord"
begin

section \<open>Values, documents and Python's dictionaries\<close>

text \<open>
  The document manager \<^verbatim>\<open>mongo_connector/doc_managers/arango3_doc_manager.py\<close> moves
  MongoDB documents, Python dictionaries, into ArangoDB. A field value is \<^verbatim>\<open>None\<close>, an
  integer, a string, a BSON ObjectId (given by its 24 hexadecimal digits) or a nested
  dictionary. A dictionary is an association list in insertion order; the first binding
  of a name is the one Python would hold.
\<close>

datatype val = VNone | VInt int | VStr string | VOid string | VDict "(string \<times> val) list"

type_synonym document = "(string \<times> val) list"

datatype error = OperationFailed | KeyError | ValueError | ArangoError

text \<open>
  \<^verbatim>\<open>d.get(k)\<close> gives \<^verbatim>\<open>None\<close> for a missing key, \<^verbatim>\<open>d.pop(k)\<close> raises
  \<^verbatim>\<open>KeyError\<close> for one, \<^verbatim>\<open>d[k] = v\<close> and \<^verbatim>\<open>d.update({k: v})\<close> overwrite in
  place or append.
\<close>

definition py_in :: "string \<Rightarrow> document \<Rightarrow> bool" where
  "py_in k d = (map_of d k \<noteq> None)"

definition py_get :: "document \<Rightarrow> string \<Rightarrow> val" where
  "py_get d k = (case map_of d k of None \<Rightarrow> VNone | Some v \<Rightarrow> v)"

definition py_pop :: "document \<Rightarrow> string \<Rightarrow> error + document" where
  "py_pop d k = (if py_in k d then Inr (AList.delete k d) else Inl KeyError)"

definition py_set :: "string \<Rightarrow> val \<Rightarrow> document \<Rightarrow> document" where
  "py_set k v d = AList.update k v d"

subsection \<open>The string form of a value\<close>

text \<open>
  \<^verbatim>\<open>str(x)\<close> of Python 3: a string is itself, an integer its decimal digits,
  \<^verbatim>\<open>None\<close> the word, an ObjectId its hexadecimal digits, and a dictionary its
  \<^verbatim>\<open>repr\<close>. The \<^verbatim>\<open>repr\<close> of a string is written out for ASCII text: the quote
  is the double quote when the string holds a single quote and no double quote, the
  backslash, the quote and the control characters are escaped.
\<close>

definition digit_char :: "nat \<Rightarrow> char" where
  "digit_char n = ''0123456789abcdef'' ! n"

function str_nat :: "nat \<Rightarrow> string" where
  "str_nat n = (if n < 10 then [digit_char n] else str_nat (n div 10) @ [digit_char (n mod 10)])"
  by pat_completeness auto
termination
  by (relation "measure (\<lambda>n. n)") auto

declare str_nat.simps [simp del]

definition str_int :: "int \<Rightarrow> string" where
  "str_int i = (if i < 0 then CHR ''-'' # str_nat (nat (- i)) else str_nat (nat i))"

definition repr_char :: "char \<Rightarrow> char \<Rightarrow> string" where
  "repr_char q c =
     (if c = q \<or> c = CHR 0x5C then [CHR 0x5C, c]
      else if c = CHR 0x09 then [CHR 0x5C, CHR ''t'']
      else if c = CHR 0x0A then [CHR 0x5C, CHR ''n'']
      else if c = CHR 0x0D then [CHR 0x5C, CHR ''r'']
      else if of_char c < (32::nat) \<or> c = CHR 0x7F
        then [CHR 0x5C, CHR ''x'', digit_char (of_char c div 16), digit_char (of_char c mod 16)]
      else [c])"

definition repr_str :: "string \<Rightarrow> string" where
  "repr_str s =
     (let q = (if CHR 0x27 \<in> set s \<and> CHR 0x22 \<notin> set s then CHR 0x22 else CHR 0x27)
      in q # concat (map (repr_char q) s) @ [q])"

definition join :: "string \<Rightarrow> string list \<Rightarrow> string" where
  "join sep xs = (case xs of [] \<Rightarrow> [] | y # ys \<Rightarrow> y @ concat (map (\<lambda>z. sep @ z) ys))"

fun py_repr :: "val \<Rightarrow> string" where
  "py_repr VNone = ''None''"
| "py_repr (VInt i) = str_int i"
| "py_repr (VStr s) = repr_str s"
| "py_repr (VOid h) = ''ObjectId('' @ repr_str h @ '')''"
| "py_repr (VDict d) =
     ''{'' @ join '', '' (map (\<lambda>kv. repr_str (fst kv) @ '': '' @ py_repr (snd kv)) d) @ ''}''"

fun py_str :: "val \<Rightarrow> string" where
  "py_str VNone = ''None''"
| "py_str (VInt i) = str_int i"
| "py_str (VStr s) = s"
| "py_str (VOid h) = h"
| "py_str (VDict d) = py_repr (VDict d)"

section \<open>The key encoding\<close>

text \<open>
  \<^verbatim>\<open>DocManager.pre_process_id\<close>:
  \<^verbatim>\<open>doc_id = str(doc_id); if '.' not in doc_id: doc_id = doc_id + '.'; return doc_id\<close>.
\<close>

definition pre_process_id :: "val \<Rightarrow> string" where
  "pre_process_id doc_id =
     (let doc_id = py_str doc_id
      in if CHR ''.'' \<notin> set doc_id then doc_id @ ''.'' else doc_id)"

section \<open>The target store\<close>

text \<open>
  Modelled from the spec: the store client (the \<^verbatim>\<open>python-arango\<close> package) and the
  server behind it are no part of the repository. The spec (6, External Interfaces) gives
  their contract: databases and collections can be listed and created, a collection offers
  per-key get, insert, replace and delete, a bulk import with an on-conflict policy, and a
  query with range filter, sort and limit. A collection is the list of its documents in
  insertion order; a document's key is its \<^verbatim>\<open>_key\<close> field, unique in the collection.
  The system fields \<^verbatim>\<open>_id\<close> and \<^verbatim>\<open>_rev\<close> that the server adds are left out.

  The server holds every collection under its database and collection name, the metadata
  collection \<^verbatim>\<open>mongodb_meta.mongodb_data\<close> among them: a target namespace of that name
  is the metadata collection itself.
\<close>

type_synonym collection = "document list"

record store =
  store_dbs :: "string list"
  store_colls :: "((string \<times> string) \<times> collection) list"
  log_lines :: "string list"

definition get_coll :: "store \<Rightarrow> string \<times> string \<Rightarrow> collection option" where
  "get_coll s n = map_of (store_colls s) n"

definition put_coll :: "string \<times> string \<Rightarrow> collection \<Rightarrow> store \<Rightarrow> store" where
  "put_coll n c s = s\<lparr>store_colls := AList.update n c (store_colls s)\<rparr>"

text \<open>
  \<^verbatim>\<open>collection.find(filters)\<close> returns the documents that carry every field of
  \<^verbatim>\<open>filters\<close> with the same value; \<^verbatim>\<open>collection.has(key)\<close> tells whether a key is
  present.
\<close>

definition matches :: "document \<Rightarrow> document \<Rightarrow> bool" where
  "matches flt d = list_all (\<lambda>fv. map_of d (fst fv) = Some (snd fv)) flt"

definition coll_find :: "document \<Rightarrow> collection \<Rightarrow> document list" where
  "coll_find flt c = filter (matches flt) c"

definition coll_has :: "string \<Rightarrow> collection \<Rightarrow> bool" where
  "coll_has k c = (coll_find [(''_key'', VStr k)] c \<noteq> [])"

text \<open>
  \<^verbatim>\<open>collection.insert(doc)\<close> fails on a key that is present: the manager imports
  \<^verbatim>\<open>DocumentInsertError\<close> and its \<^verbatim>\<open>wrap_exceptions\<close> turns it into
  \<^verbatim>\<open>OperationFailed\<close>. \<^verbatim>\<open>collection.replace(doc)\<close> replaces the whole document of the
  same key and fails on a key that is absent, with an exception that \<^verbatim>\<open>wrap_exceptions\<close>
  does not map (\<open>ArangoError\<close>); the manager calls it on present keys only.
\<close>

definition coll_insert :: "document \<Rightarrow> collection \<Rightarrow> error + collection" where
  "coll_insert d c =
     (if coll_find [(''_key'', py_get d ''_key'')] c \<noteq> [] then Inl OperationFailed
      else Inr (c @ [d]))"

definition coll_replace :: "document \<Rightarrow> collection \<Rightarrow> error + collection" where
  "coll_replace d c =
     (if coll_find [(''_key'', py_get d ''_key'')] c = [] then Inl ArangoError
      else Inr (map (\<lambda>x. if matches [(''_key'', py_get d ''_key'')] x then d else x) c))"

text \<open>
  Modelled from the spec: \<^verbatim>\<open>collection.delete(key)\<close>, of the store client. The spec
  (4.6): deleting a nonexistent key in either store is not an error.
\<close>

definition coll_delete :: "string \<Rightarrow> collection \<Rightarrow> collection" where
  "coll_delete k c = filter (\<lambda>x. \<not> matches [(''_key'', VStr k)] x) c"



text \<open>
  Modelled from the spec: \<^verbatim>\<open>collection.find_in_range(field, lower, upper)\<close>, of the store
  client. The spec (4.7): every record whose timestamp falls within the bounds, both
  included.
\<close>

definition find_in_range :: "string \<Rightarrow> int \<Rightarrow> int \<Rightarrow> collection \<Rightarrow> document list" where
  "find_in_range field lower upper c =
     filter (\<lambda>d. case map_of d field of Some (VInt t) \<Rightarrow> lower \<le> t \<and> t \<le> upper | _ \<Rightarrow> False) c"

section \<open>The document manager\<close>

text \<open>
  \<^verbatim>\<open>_db_and_collection\<close> is \<^verbatim>\<open>namespace.split('.', 1)\<close>, and every caller unpacks the
  result into two names: \<open>None\<close> stands for the \<^verbatim>\<open>ValueError\<close> of unpacking the
  one-element list of a namespace without a \<^verbatim>\<open>.\<close>.
\<close>

definition db_and_collection :: "string \<Rightarrow> (string \<times> string) option" where
  "db_and_collection namespace =
     (if CHR ''.'' \<in> set namespace
      then Some (takeWhile (\<lambda>c. c \<noteq> CHR ''.'') namespace,
                 tl (dropWhile (\<lambda>c. c \<noteq> CHR ''.'') namespace))
      else None)"

definition check_if_database_exists :: "string \<Rightarrow> store \<Rightarrow> bool" where
  "check_if_database_exists database s = (database \<in> set (store_dbs s))"

definition check_if_collection_exists :: "string \<Rightarrow> string \<Rightarrow> store \<Rightarrow> bool" where
  "check_if_collection_exists database coll s = ((database, coll) \<in> set (map fst (store_colls s)))"

definition create_database :: "string \<Rightarrow> store \<Rightarrow> store" where
  "create_database database s = s\<lparr>store_dbs := store_dbs s @ [database]\<rparr>"

definition create_collection :: "string \<Rightarrow> string \<Rightarrow> store \<Rightarrow> store" where
  "create_collection database coll s = s\<lparr>store_colls := store_colls s @ [((database, coll), [])]\<rparr>"

text \<open>
  \<^verbatim>\<open>handle_command\<close>, for a command document whose only command is \<^verbatim>\<open>create\<close>:
  \<^verbatim>\<open>upsert\<close> and \<^verbatim>\<open>bulk_upsert\<close> call it with \<^verbatim>\<open>{"create": coll}\<close>. The branch is
  skipped when \<^verbatim>\<open>doc.get('create')\<close> is falsy (the empty name) and when the mapped
  database name is; \<^verbatim>\<open>CommandHelper()\<close>, built without a namespace configuration, maps
  every namespace to itself.
\<close>

definition handle_command :: "document \<Rightarrow> string \<Rightarrow> int \<Rightarrow> store \<Rightarrow> error + store" where
  "handle_command doc namespace timestamp s =
     (case db_and_collection namespace of
        None \<Rightarrow> Inl ValueError
      | Some (db, _) \<Rightarrow>
          (case py_get doc ''create'' of
             VStr coll \<Rightarrow>
               if coll \<noteq> [] \<and> db \<noteq> [] then
                 let s1 = (if check_if_database_exists db s then s else create_database db s);
                     s2 = (if check_if_collection_exists db coll s1 then s1
                           else create_collection db coll s1)
                 in Inr s2
               else Inr s
           | _ \<Rightarrow> Inr s))"

text \<open>
  The constructor: \<^verbatim>\<open>self.meta_database = "mongodb_meta"\<close>,
  \<^verbatim>\<open>self.meta_collection = "mongodb_data"\<close>, and both are created when the database is
  not among the server's. \<open>meta_target\<close> names the collection that
  \<^verbatim>\<open>self.meta_database.collection(self.meta_collection)\<close> addresses, and
  \<open>meta_collection\<close> reads its documents (none when it does not exist).
\<close>

definition meta_target :: "string \<times> string" where
  "meta_target = (''mongodb_meta'', ''mongodb_data'')"

definition doc_manager_init :: "store \<Rightarrow> store" where
  "doc_manager_init s =
     (if ''mongodb_meta'' \<notin> set (store_dbs s)
      then create_collection ''mongodb_meta'' ''mongodb_data'' (create_database ''mongodb_meta'' s)
      else s)"

definition meta_collection :: "store \<Rightarrow> collection" where
  "meta_collection s = (case get_coll s meta_target of None \<Rightarrow> [] | Some m \<Rightarrow> m)"

text \<open>
  \<^verbatim>\<open>upsert(doc, namespace, timestamp)\<close>. The result is what the call raised (\<open>None\<close>
  when it returned), the caller's dictionary \<^verbatim>\<open>doc\<close> as the call left it, and the
  store as the call left it. A query on a collection that does not exist raises an
  exception of the client that \<^verbatim>\<open>wrap_exceptions\<close> does not map (\<open>ArangoError\<close>).
\<close>

definition upsert :: "document \<Rightarrow> string \<Rightarrow> int \<Rightarrow> store \<Rightarrow> error option \<times> document \<times> store" where
  "upsert doc namespace timestamp s =
     (case db_and_collection namespace of
        None \<Rightarrow> (Some ValueError, doc, s)
      | Some (database, coll) \<Rightarrow>
          (case handle_command [(''create'', VStr coll)] namespace timestamp s of
             Inl e \<Rightarrow> (Some e, doc, s)
           | Inr s1 \<Rightarrow>
               let doc_id = pre_process_id (py_get doc ''_id'') in
               (case py_pop doc ''_id'' of
                  Inl e \<Rightarrow> (Some e, doc, s1)
                | Inr doc1 \<Rightarrow>
                    (case get_coll s1 meta_target of
                       None \<Rightarrow> (Some ArangoError, doc1, s1)
                     | Some meta_coll \<Rightarrow>
                         let meta = [(''_key'', VStr doc_id), (''_ts'', VInt timestamp),
                                     (''ns'', VStr namespace)];
                             meta_cursor = coll_find [(''_key'', VStr doc_id), (''ns'', VStr namespace)]
                                             meta_coll
                         in (case (if meta_cursor \<noteq> [] then coll_replace meta meta_coll
                                   else coll_insert meta meta_coll) of
                               Inl e \<Rightarrow> (Some e, doc1, s1)
                             | Inr m \<Rightarrow>
                                 let s2 = put_coll meta_target m s1;
                                     doc2 = py_set ''_key'' (VStr doc_id) doc1
                                 in (case get_coll s2 (database, coll) of
                                       None \<Rightarrow> (Some ArangoError, doc2, s2)
                                     | Some c \<Rightarrow>
                                         (case (if coll_has doc_id c then coll_replace doc2 c
                                                else coll_insert doc2 c) of
                                            Inl e \<Rightarrow> (Some e, doc2, s2)
                                          | Inr c' \<Rightarrow>
                                              (None, doc2, put_coll (database, coll) c' s2))))))))"

text \<open>
  Modelled from the spec: \<^verbatim>\<open>DocManagerBase.apply_update\<close>, of
  \<^verbatim>\<open>mongo_connector/doc_managers/doc_manager_base.py\<close>, which is not among the sources.
  The spec (4.4): the patch kinds are "set field" and "unset field"; the fields under
  \<^verbatim>\<open>$set\<close> are added or overwritten, then the fields under \<^verbatim>\<open>$unset\<close> are removed.
\<close>

definition patch_fields :: "document \<Rightarrow> string \<Rightarrow> document" where
  "patch_fields update_spec kind = (case map_of update_spec kind of Some (VDict fs) \<Rightarrow> fs | _ \<Rightarrow> [])"

definition base_apply_update :: "document \<Rightarrow> document \<Rightarrow> document" where
  "base_apply_update doc update_spec =
     fold (\<lambda>fv d. AList.delete (fst fv) d) (patch_fields update_spec ''$unset'')
       (fold (\<lambda>fv d. py_set (fst fv) (snd fv) d) (patch_fields update_spec ''$set'') doc)"

text \<open>\<^verbatim>\<open>DocManager.apply_update\<close>: a patch with neither key is the new document.\<close>

definition apply_update :: "document \<Rightarrow> document \<Rightarrow> document" where
  "apply_update doc update_spec =
     (if \<not> py_in ''$set'' update_spec \<and> \<not> py_in ''$unset'' update_spec then update_spec
      else base_apply_update doc update_spec)"

text \<open>
  \<^verbatim>\<open>update(document_id, update_spec, namespace, timestamp)\<close>. The logged message is the
  string literal of the source, whose continuation line brings its sixteen leading blanks.
\<close>

definition update :: "val \<Rightarrow> document \<Rightarrow> string \<Rightarrow> int \<Rightarrow> store \<Rightarrow> error option \<times> store" where
  "update document_id update_spec namespace timestamp s =
     (let document_id = pre_process_id document_id in
      case db_and_collection namespace of
        None \<Rightarrow> (Some ValueError, s)
      | Some (db, coll) \<Rightarrow>
          (case get_coll s meta_target of
             None \<Rightarrow> (Some ArangoError, s)
           | Some meta_coll \<Rightarrow>
               let meta = [(''_key'', VStr document_id), (''_ts'', VInt timestamp),
                           (''ns'', VStr namespace)];
                   meta_cursor = coll_find [(''_key'', VStr document_id), (''ns'', VStr namespace)]
                                   meta_coll
               in (case (if meta_cursor \<noteq> [] then coll_replace meta meta_coll
                         else Inr meta_coll) of
                     Inl e \<Rightarrow> (Some e, s)
                   | Inr m \<Rightarrow>
                       let s1 = (if meta_cursor \<noteq> [] then put_coll meta_target m s else s) in
                       (case get_coll s1 (db, coll) of
                          None \<Rightarrow> (Some ArangoError, s1)
                        | Some c \<Rightarrow>
                            (case coll_find [(''_key'', VStr document_id)] c of
                               document # _ \<Rightarrow>
                                 let updated = apply_update document update_spec;
                                     updated = py_set ''_id'' (VStr document_id) updated
                                 in (case upsert updated namespace timestamp s1 of
                                       (e, _, s2) \<Rightarrow> (e, s2))
                             | [] \<Rightarrow>
                                 (None, s1\<lparr>log_lines := log_lines s1 @
                                           [''The document '' @ document_id
                               @ '', which you are trying to update                 is missing in ArangoDB'']\<rparr>))))))"

text \<open>\<^verbatim>\<open>remove(document_id, namespace, timestamp)\<close>: the metadata record first.\<close>

definition remove :: "val \<Rightarrow> string \<Rightarrow> int \<Rightarrow> store \<Rightarrow> error option \<times> store" where
  "remove document_id namespace timestamp s =
     (let document_id = pre_process_id document_id in
      case db_and_collection namespace of
        None \<Rightarrow> (Some ValueError, s)
      | Some (database, coll) \<Rightarrow>
          let s1 = (case get_coll s meta_target of
                      None \<Rightarrow> s
                    | Some meta_coll \<Rightarrow>
                        put_coll meta_target (coll_delete document_id meta_coll) s)
          in (case get_coll s1 (database, coll) of
                None \<Rightarrow> (None, s1)
              | Some c \<Rightarrow> (None, put_coll (database, coll) (coll_delete document_id c) s1)))"

text \<open>\<^verbatim>\<open>search(start_ts, end_ts)\<close>: the generator's items, as a list.\<close>

definition search :: "int \<Rightarrow> int \<Rightarrow> store \<Rightarrow> document list" where
  "search start_ts end_ts s = find_in_range ''_ts'' start_ts end_ts (meta_collection s)"

text \<open>
  \<^verbatim>\<open>get_last_doc\<close> runs the query
  \<^verbatim>\<open>FOR doc IN mongodb_data SORT doc._ts DESC LIMIT 1 RETURN doc\<close> and returns the first
  result, or \<^verbatim>\<open>None\<close> when there is none. A record without an integer \<^verbatim>\<open>_ts\<close> sorts
  lowest, as \<^verbatim>\<open>null\<close> does in the query language.
\<close>

definition doc_ts :: "document \<Rightarrow> int option" where
  "doc_ts d = (case map_of d ''_ts'' of Some (VInt t) \<Rightarrow> Some t | _ \<Rightarrow> None)"


subsection \<open>The bulk loader\<close>







section \<open>Notions for the statements\<close>

text \<open>
  The metadata record \<^verbatim>\<open>{"_key": doc_id, "_ts": timestamp, "ns": namespace}\<close>; the
  document and the metadata entry that the bulk loader makes of a document of its
  sequence; and the server's guarantee that no two documents of a collection carry the
  same \<^verbatim>\<open>_key\<close>.
\<close>

definition meta_doc :: "string \<Rightarrow> int \<Rightarrow> string \<Rightarrow> document" where
  "meta_doc doc_id timestamp namespace =
     [(''_key'', VStr doc_id), (''_ts'', VInt timestamp), (''ns'', VStr namespace)]"

definition bulk_doc :: "document \<Rightarrow> document" where
  "bulk_doc doc =
     py_set ''_key'' (VStr (pre_process_id (py_get doc ''_id''))) (AList.delete ''_id'' doc)"

definition bulk_meta_of :: "string \<Rightarrow> int \<Rightarrow> document \<Rightarrow> document" where
  "bulk_meta_of namespace timestamp doc =
     [(''_key'', VStr (pre_process_id (py_get doc ''_id''))), (''ns'', VStr namespace),
      (''_ts'', VInt timestamp)]"



text \<open>The store as the constructor leaves a server without databases.\<close>

definition empty_store :: store where
  "empty_store = doc_manager_init \<lparr>store_dbs = [], store_colls = [], log_lines = []\<rparr>"

section \<open>The data of the test suite\<close>

text \<open>
  \<^verbatim>\<open>tests/test_arango3_doc_manager.py\<close> works in the namespace
  \<^verbatim>\<open>test_db.test_collection\<close> and upserts \<^verbatim>\<open>{"name": "John", "_id": "111a"}\<close>.
  \<open>john_store\<close> is the store after that upsert, at timestamp 5, into the empty store;
  \<open>orphan_store\<close> holds the metadata record and no document.
\<close>

definition test_namespace :: string where
  "test_namespace = ''test_db.test_collection''"

definition john :: document where
  "john = [(''name'', VStr ''John''), (''_id'', VStr ''111a'')]"

definition john_stored :: document where
  "john_stored = [(''name'', VStr ''John''), (''_key'', VStr ''111a.'')]"

definition john_store :: store where
  "john_store =
     \<lparr>store_dbs = [''mongodb_meta'', ''test_db''],
      store_colls = [((''mongodb_meta'', ''mongodb_data''),
                      [[(''_key'', VStr ''111a.''), (''_ts'', VInt 5), (''ns'', VStr test_namespace)]]),
                     ((''test_db'', ''test_collection''), [john_stored])],
      log_lines = []\<rparr>"

definition orphan_store :: store where
  "orphan_store =
     \<lparr>store_dbs = [''mongodb_meta'', ''test_db''],
      store_colls = [((''mongodb_meta'', ''mongodb_data''),
                      [[(''_key'', VStr ''111a.''), (''_ts'', VInt 5), (''ns'', VStr test_namespace)]]),
                     ((''test_db'', ''test_collection''), [])],
      log_lines = []\<rparr>"



definition city_patch :: document where
  "city_patch = [(''$set'', VDict [(''city'', VStr ''New York'')])]"


section \<open>Sequences of upserts\<close>

text \<open>
  The calls \<^verbatim>\<open>upsert(doc, namespace, timestamp)\<close> of a list, one after the other, up to
  the first that raises.
\<close>

fun upsert_all :: "(document \<times> string \<times> int) list \<Rightarrow> store \<Rightarrow> error option \<times> store" where
  "upsert_all [] s = (None, s)"
| "upsert_all ((doc, namespace, timestamp) # rest) s =
     (case upsert doc namespace timestamp s of
        (None, _, s') \<Rightarrow> upsert_all rest s'
      | (Some e, _, s') \<Rightarrow> (Some e, s'))"

section \<open>The key encoding: properties\<close>



text \<open>
  C3. The key encoding is a total function of the string form of the source id, so two
  calls on the same id agree. When the string form has no \<^verbatim>\<open>.\<close>, the key is the
  string form followed by exactly one \<^verbatim>\<open>.\<close>; when it has one, the key is the string
  form itself. The key of \<^verbatim>\<open>"111a"\<close> is \<^verbatim>\<open>"111a."\<close>, the key of \<^verbatim>\<open>"1.2"\<close> is
  \<^verbatim>\<open>"1.2"\<close>, and the key of the integer 7 is \<^verbatim>\<open>"7."\<close>.
\<close>

theorem pre_process_id_encoding:
  "pre_process_id v =
     (if CHR ''.'' \<in> set (py_str v) then py_str v else py_str v @ ''.'')
   \<and> (py_str v = py_str w \<longrightarrow> pre_process_id v = pre_process_id w)
   \<and> pre_process_id (VStr ''111a'') = ''111a.''
   \<and> pre_process_id (VStr ''1.2'') = ''1.2''
   \<and> pre_process_id (VInt 7) = ''7.''"
  by (simp add: pre_process_id_def Let_def str_int_def str_nat.simps digit_char_def)

theorem pre_process_id_encoding_witness:
  "py_str (VStr ''7'') = py_str (VInt 7)
   \<and> pre_process_id (VStr ''7'') = pre_process_id (VInt 7)
   \<and> pre_process_id (VStr ''7'') = ''7.''"
  using pre_process_id_encoding [of "VStr ''7''" "VInt 7"]
  by (simp add: str_int_def str_nat.simps digit_char_def)

section \<open>The store primitives: properties\<close>

lemma matches_key [simp]: "matches [(''_key'', v)] d \<longleftrightarrow> map_of d ''_key'' = Some v"
  by (simp add: matches_def)

lemma matches_key_ns [simp]:
  "matches [(''_key'', v), (''ns'', w)] d \<longleftrightarrow> map_of d ''_key'' = Some v \<and> map_of d ''ns'' = Some w"
  by (simp add: matches_def)

lemma map_of_py_set: "map_of (py_set k v d) = (map_of d)(k \<mapsto> v)"
  by (simp add: py_set_def update_conv')

lemma py_get_py_set_key [simp]: "py_get (py_set k v d) k = v"
  by (simp add: py_get_def map_of_py_set)

lemma meta_doc_key [simp]: "map_of (meta_doc k t ns) ''_key'' = Some (VStr k)"
  by (simp add: meta_doc_def)
lemma meta_doc_ns [simp]: "map_of (meta_doc k t ns) ''ns'' = Some (VStr ns)"
  by (simp add: meta_doc_def)
lemma meta_doc_ts [simp]: "map_of (meta_doc k t ns) ''_ts'' = Some (VInt t)"
  by (simp add: meta_doc_def)
lemma py_get_meta_doc [simp]: "py_get (meta_doc k t ns) ''_key'' = VStr k"
  by (simp add: py_get_def)


lemma coll_find_key: "coll_find [(''_key'', v)] c = filter (\<lambda>d. map_of d ''_key'' = Some v) c"
  unfolding coll_find_def by (rule filter_cong) simp_all

lemma coll_find_key_ns:
  "coll_find [(''_key'', v), (''ns'', w)] c
     = filter (\<lambda>d. map_of d ''_key'' = Some v \<and> map_of d ''ns'' = Some w) c"
  unfolding coll_find_def by (rule filter_cong) simp_all











section \<open>The store: properties\<close>

lemma get_coll_None_iff: "get_coll s n = None \<longleftrightarrow> n \<notin> fst ` set (store_colls s)"
  by (simp add: get_coll_def map_of_eq_None_iff)

lemma get_coll_put_coll [simp]: "get_coll (put_coll n c s) n' = (if n' = n then Some c else get_coll s n')"
  by (simp add: get_coll_def put_coll_def update_conv')

lemma put_coll_same: "get_coll s n = Some c \<Longrightarrow> put_coll n c s = s"
  by (simp add: get_coll_def put_coll_def update_triv)

lemma put_coll_fields [simp]:
  "store_dbs (put_coll n c s) = store_dbs s"
  "log_lines (put_coll n c s) = log_lines s"
  by (simp_all add: put_coll_def)

lemma get_coll_log_update [simp]: "get_coll (s\<lparr>log_lines := l\<rparr>) n = get_coll s n"
  by (simp add: get_coll_def)

lemma meta_collection_Some: "get_coll s meta_target = Some m \<Longrightarrow> meta_collection s = m"
  by (simp add: meta_collection_def)

lemma meta_collection_put [simp]:
  "meta_collection (put_coll n c s) = (if n = meta_target then c else meta_collection s)"
  by (simp add: meta_collection_def)




section \<open>Lazy creation: properties\<close>

lemma handle_command_create:
  assumes "db_and_collection ns = Some (db, coll)"
  shows "handle_command [(''create'', VStr coll)] ns t s =
     Inr (if coll \<noteq> [] \<and> db \<noteq> [] then
            (if get_coll s (db, coll) = None
             then s\<lparr>store_dbs := (if db \<in> set (store_dbs s) then store_dbs s else store_dbs s @ [db]),
                    store_colls := store_colls s @ [((db, coll), [])]\<rparr>
             else s\<lparr>store_dbs := (if db \<in> set (store_dbs s) then store_dbs s else store_dbs s @ [db])\<rparr>)
          else s)"
  using assms
  by (auto simp: handle_command_def py_get_def Let_def check_if_database_exists_def
      check_if_collection_exists_def create_database_def create_collection_def get_coll_None_iff)

lemma handle_command_log:
  "handle_command d ns t s = Inr s1 \<Longrightarrow> log_lines s1 = log_lines s"
  by (auto simp: handle_command_def Let_def create_database_def create_collection_def
      split: option.splits val.splits if_splits prod.splits)


lemma handle_command_other:
  assumes "db_and_collection ns = Some (db, coll)"
    and "handle_command [(''create'', VStr coll)] ns t s = Inr s1" and "n \<noteq> (db, coll)"
  shows "get_coll s1 n = get_coll s n"
  using assms(2-) unfolding handle_command_create [OF assms(1)]
  by (auto simp: get_coll_def map_add_def split: option.splits if_splits)


lemma handle_command_created:
  assumes "db_and_collection ns = Some (db, coll)" "db \<noteq> []" "coll \<noteq> []"
    and "handle_command [(''create'', VStr coll)] ns t s = Inr s1"
  shows "get_coll s1 (db, coll) = (case get_coll s (db, coll) of None \<Rightarrow> Some [] | Some c \<Rightarrow> Some c)"
    and "db \<in> set (store_dbs s1)"
  using assms(2-) unfolding handle_command_create [OF assms(1)]
  by (auto simp: get_coll_def map_add_Some_iff split: option.splits if_splits)

lemma handle_command_stable:
  assumes "db_and_collection ns = Some (db, coll)"
    and "get_coll s (db, coll) \<noteq> None" and "db \<noteq> [] \<and> coll \<noteq> [] \<longrightarrow> db \<in> set (store_dbs s)"
  shows "handle_command [(''create'', VStr coll)] ns t s = Inr s"
  using assms(2-) unfolding handle_command_create [OF assms(1)] by auto


section \<open>Upsert: properties\<close>

lemma upsert_NoneE:
  assumes "upsert doc ns t s = (None, d', s')"
  obtains db coll s1 mc m c c' where
    "db_and_collection ns = Some (db, coll)"
    "handle_command [(''create'', VStr coll)] ns t s = Inr s1"
    "py_in ''_id'' doc"
    "d' = py_set ''_key'' (VStr (pre_process_id (py_get doc ''_id''))) (AList.delete ''_id'' doc)"
    "get_coll s1 meta_target = Some mc"
    "(if coll_find [(''_key'', VStr (pre_process_id (py_get doc ''_id''))), (''ns'', VStr ns)] mc \<noteq> []
      then coll_replace (meta_doc (pre_process_id (py_get doc ''_id'')) t ns) mc
      else coll_insert (meta_doc (pre_process_id (py_get doc ''_id'')) t ns) mc) = Inr m"
    "get_coll (put_coll meta_target m s1) (db, coll) = Some c"
    "(if coll_has (pre_process_id (py_get doc ''_id'')) c then coll_replace d' c else coll_insert d' c) = Inr c'"
    "s' = put_coll (db, coll) c' (put_coll meta_target m s1)"
proof -
  from assms obtain db coll where ns: "db_and_collection ns = Some (db, coll)"
    by (auto simp: upsert_def split: option.splits)
  from assms ns obtain s1 where hc: "handle_command [(''create'', VStr coll)] ns t s = Inr s1"
    by (auto simp: upsert_def split: sum.splits)
  from assms ns hc have id: "py_in ''_id'' doc"
    by (auto simp: upsert_def Let_def py_pop_def split: if_splits)
  from assms ns hc id obtain mc where mc: "get_coll s1 meta_target = Some mc"
    by (auto simp: upsert_def Let_def py_pop_def split: option.splits)
  define k where "k = pre_process_id (py_get doc ''_id'')"
  define M where "M = [(''_key'', VStr k), (''_ts'', VInt t), (''ns'', VStr ns)]"
  define d2 where "d2 = py_set ''_key'' (VStr k) (AList.delete ''_id'' doc)"
  have M: "M = meta_doc k t ns" by (simp add: M_def meta_doc_def)
  have u: "upsert doc ns t s =
     (case (if coll_find [(''_key'', VStr k), (''ns'', VStr ns)] mc \<noteq> [] then coll_replace M mc
            else coll_insert M mc) of
        Inl e \<Rightarrow> (Some e, AList.delete ''_id'' doc, s1)
      | Inr m \<Rightarrow>
          (case get_coll (put_coll meta_target m s1) (db, coll) of
             None \<Rightarrow> (Some ArangoError, d2, put_coll meta_target m s1)
           | Some c \<Rightarrow>
               (case (if coll_has k c then coll_replace d2 c else coll_insert d2 c) of
                  Inl e \<Rightarrow> (Some e, d2, put_coll meta_target m s1)
                | Inr c' \<Rightarrow> (None, d2, put_coll (db, coll) c' (put_coll meta_target m s1)))))"
    using id
    by (simp add: upsert_def ns hc mc Let_def py_pop_def k_def M_def d2_def
        split: sum.splits option.splits)
  from assms obtain m where
    m: "(if coll_find [(''_key'', VStr k), (''ns'', VStr ns)] mc \<noteq> [] then coll_replace M mc
         else coll_insert M mc) = Inr m"
    unfolding u by (auto split: sum.splits)
  from assms obtain c where c: "get_coll (put_coll meta_target m s1) (db, coll) = Some c"
    unfolding u m by (auto split: option.splits)
  from assms obtain c' where c': "(if coll_has k c then coll_replace d2 c else coll_insert d2 c) = Inr c'"
    and d': "d' = d2" and s': "s' = put_coll (db, coll) c' (put_coll meta_target m s1)"
    unfolding u m using c by (auto split: sum.splits)
  show thesis
    using that [OF ns hc id _ mc _ c _ s'] m c' d' unfolding k_def [symmetric] M d2_def by blast
qed



section \<open>The test data: evaluation\<close>

lemma empty_store_eq:
  "empty_store = \<lparr>store_dbs = [''mongodb_meta''],
                  store_colls = [((''mongodb_meta'', ''mongodb_data''), [])], log_lines = []\<rparr>"
  by (simp add: empty_store_def doc_manager_init_def create_database_def create_collection_def)

lemma test_namespace_split:
  "db_and_collection test_namespace = Some (''test_db'', ''test_collection'')"
  by code_simp


lemma upsert_john: "upsert john test_namespace 5 empty_store = (None, john_stored, john_store)"
  by code_simp



section \<open>Upsert twice\<close>




section \<open>Upsert and the caller's document\<close>

lemma py_in_py_set_delete [simp]: "\<not> py_in ''_id'' (py_set ''_key'' v (AList.delete ''_id'' d))"
  by (simp add: py_in_def map_of_py_set delete_conv')

lemma upsert_no_id:
  assumes "\<not> py_in ''_id'' doc" and "db_and_collection ns = Some (db, coll)"
    and "handle_command [(''create'', VStr coll)] ns t s = Inr s1"
  shows "upsert doc ns t s = (Some KeyError, doc, s1)"
  using assms by (simp add: upsert_def Let_def py_pop_def)

text \<open>
  C10. \<^verbatim>\<open>upsert\<close> mutates the dictionary it is given. When the call returns, the caller's
  dictionary has lost \<^verbatim>\<open>_id\<close> and carries the encoded key as \<^verbatim>\<open>_key\<close>, so it differs
  from what was passed in, and passing it again raises \<^verbatim>\<open>KeyError\<close>. A dictionary
  without \<^verbatim>\<open>_id\<close> raises \<^verbatim>\<open>KeyError\<close> in any namespace that splits, is left as it was,
  and the store is left as \<^verbatim>\<open>handle_command\<close> left it: the target collection has been
  created by then (when neither name is empty).
\<close>

theorem upsert_mutates_document:
  "(upsert doc ns t s = (None, d', s') \<longrightarrow>
      d' = py_set ''_key'' (VStr (pre_process_id (py_get doc ''_id''))) (AList.delete ''_id'' doc)
      \<and> py_in ''_id'' doc \<and> \<not> py_in ''_id'' d'
      \<and> map_of d' ''_key'' = Some (VStr (pre_process_id (py_get doc ''_id'')))
      \<and> d' \<noteq> doc
      \<and> upsert d' ns t s' = (Some KeyError, d', s'))
   \<and> (\<not> py_in ''_id'' doc \<and> db_and_collection ns = Some (db, coll) \<longrightarrow>
        (\<exists>s1. handle_command [(''create'', VStr coll)] ns t s = Inr s1
           \<and> upsert doc ns t s = (Some KeyError, doc, s1)
           \<and> (db \<noteq> [] \<and> coll \<noteq> [] \<longrightarrow> get_coll s1 (db, coll) \<noteq> None)))"
proof (intro conjI impI)
  assume ok: "upsert doc ns t s = (None, d', s')"
  define k where "k = pre_process_id (py_get doc ''_id'')"
  from ok obtain db coll s0 m c' where
    ns: "db_and_collection ns = Some (db, coll)"
    and hc: "handle_command [(''create'', VStr coll)] ns t s = Inr s0"
    and id: "py_in ''_id'' doc"
    and d': "d' = py_set ''_key'' (VStr k) (AList.delete ''_id'' doc)"
    and s': "s' = put_coll (db, coll) c' (put_coll meta_target m s0)"
    unfolding k_def by (rule upsert_NoneE)
  show "d' = py_set ''_key'' (VStr k) (AList.delete ''_id'' doc)" by (fact d')
  show "py_in ''_id'' doc" by (fact id)
  show noid: "\<not> py_in ''_id'' d'" by (simp add: d')
  show "map_of d' ''_key'' = Some (VStr k)" by (simp add: d' map_of_py_set)
  show "d' \<noteq> doc" using id noid by auto
  have dbs: "db \<noteq> [] \<and> coll \<noteq> [] \<longrightarrow> db \<in> set (store_dbs s')"
    using handle_command_created(2) [OF ns _ _ hc] by (simp add: s')
  have "handle_command [(''create'', VStr coll)] ns t s' = Inr s'"
    using ns _ dbs by (rule handle_command_stable) (simp add: s')
  with noid ns show "upsert d' ns t s' = (Some KeyError, d', s')" by (rule upsert_no_id)
next
  assume a: "\<not> py_in ''_id'' doc \<and> db_and_collection ns = Some (db, coll)"
  then have ns: "db_and_collection ns = Some (db, coll)" and noid: "\<not> py_in ''_id'' doc" by simp_all
  obtain s1 where hc: "handle_command [(''create'', VStr coll)] ns t s = Inr s1"
    using handle_command_create [OF ns] by blast
  have "db \<noteq> [] \<and> coll \<noteq> [] \<longrightarrow> get_coll s1 (db, coll) \<noteq> None"
    using handle_command_created(1) [OF ns _ _ hc] by (auto split: option.splits)
  with hc upsert_no_id [OF noid ns hc]
  show "\<exists>s1. handle_command [(''create'', VStr coll)] ns t s = Inr s1
           \<and> upsert doc ns t s = (Some KeyError, doc, s1)
           \<and> (db \<noteq> [] \<and> coll \<noteq> [] \<longrightarrow> get_coll s1 (db, coll) \<noteq> None)" by blast
qed

theorem upsert_mutates_document_witness:
  "upsert john test_namespace 5 empty_store = (None, john_stored, john_store)
   \<and> john_stored \<noteq> john
   \<and> upsert john_stored test_namespace 5 john_store = (Some KeyError, john_stored, john_store)
   \<and> \<not> py_in ''_id'' [(''name'', VStr ''John'')]
   \<and> db_and_collection test_namespace = Some (''test_db'', ''test_collection'')
   \<and> (\<exists>s1. upsert [(''name'', VStr ''John'')] test_namespace 5 empty_store
               = (Some KeyError, [(''name'', VStr ''John'')], s1)
           \<and> get_coll s1 (''test_db'', ''test_collection'') \<noteq> None)"
proof -
  have a: "john_stored \<noteq> john
           \<and> upsert john_stored test_namespace 5 john_store = (Some KeyError, john_stored, john_store)"
    using upsert_mutates_document [where doc = john and ns = test_namespace and t = 5
        and s = empty_store and d' = john_stored and s' = john_store] upsert_john
    by blast
  have n: "\<not> py_in ''_id'' [(''name'', VStr ''John'')]" by (simp add: py_in_def)
  have b: "\<exists>s1. upsert [(''name'', VStr ''John'')] test_namespace 5 empty_store
               = (Some KeyError, [(''name'', VStr ''John'')], s1)
           \<and> get_coll s1 (''test_db'', ''test_collection'') \<noteq> None"
    using upsert_mutates_document [where doc = "[(''name'', VStr ''John'')]" and ns = test_namespace
        and t = 5 and s = empty_store and db = "''test_db''" and coll = "''test_collection''"
        and d' = john and s' = empty_store]
      n test_namespace_split
    by auto
  show ?thesis using a b n upsert_john test_namespace_split by (intro conjI) simp_all
qed

section \<open>Remove\<close>

lemma coll_find_Nil [simp]: "coll_find flt [] = []"
  by (simp add: coll_find_def)

lemma coll_delete_find [simp]: "coll_find [(''_key'', VStr k)] (coll_delete k c) = []"
  by (simp add: coll_find_key coll_delete_def filter_empty_conv)

lemma coll_delete_idem [simp]: "coll_delete k (coll_delete k c) = coll_delete k c"
  by (simp add: coll_delete_def)

text \<open>
  C7. In a namespace that splits, \<^verbatim>\<open>remove\<close> returns without an error; after it neither
  the metadata collection nor the target collection (when there is one) holds a document
  under the encoded key; and a second call with the same arguments returns without an
  error too and changes nothing. The store's \<^verbatim>\<open>delete\<close> is \<open>coll_delete\<close>, for which a
  missing key is not an error.
\<close>

theorem remove_twice:
  assumes "db_and_collection ns = Some target"
  shows "\<exists>s'. remove document_id ns t s = (None, s')
           \<and> coll_find [(''_key'', VStr (pre_process_id document_id))] (meta_collection s') = []
           \<and> (case get_coll s' target of None \<Rightarrow> get_coll s target = None
               | Some c \<Rightarrow> coll_find [(''_key'', VStr (pre_process_id document_id))] c = []
                            \<and> \<not> coll_has (pre_process_id document_id) c)
           \<and> remove document_id ns t s' = (None, s')"
proof -
  obtain db coll where t: "target = (db, coll)" by (cases target) auto
  define k where "k = pre_process_id document_id"
  define s1 where "s1 = (case get_coll s meta_target of None \<Rightarrow> s
                         | Some mc \<Rightarrow> put_coll meta_target (coll_delete k mc) s)"
  define s2 where "s2 = (case get_coll s1 (db, coll) of None \<Rightarrow> s1
                         | Some c \<Rightarrow> put_coll (db, coll) (coll_delete k c) s1)"
  have r: "remove document_id ns t' s = (None, s2)" for t'
    using assms by (simp add: remove_def Let_def k_def s1_def s2_def t split: option.splits)
  have m1: "coll_find [(''_key'', VStr k)] (meta_collection s1) = []"
    by (simp add: s1_def meta_collection_def split: option.splits)
  have m2: "coll_find [(''_key'', VStr k)] (meta_collection s2) = []"
    using m1 by (simp add: s2_def split: option.splits)
  have g2: "case get_coll s2 target of None \<Rightarrow> get_coll s target = None
               | Some c \<Rightarrow> coll_find [(''_key'', VStr k)] c = [] \<and> \<not> coll_has k c"
    by (auto simp: s2_def s1_def t coll_has_def split: option.splits if_splits)
  have i1: "(case get_coll s2 meta_target of None \<Rightarrow> s2
             | Some mc \<Rightarrow> put_coll meta_target (coll_delete k mc) s2) = s2"
    by (auto simp: s2_def s1_def put_coll_same split: option.splits if_splits)
  have i2: "(case get_coll s2 (db, coll) of None \<Rightarrow> (None, s2)
             | Some c \<Rightarrow> (None, put_coll (db, coll) (coll_delete k c) s2)) = (None, s2)"
    by (auto simp: s2_def s1_def put_coll_same split: option.splits if_splits)
  have "remove document_id ns t s2
          = (let s1' = (case get_coll s2 meta_target of None \<Rightarrow> s2
                        | Some mc \<Rightarrow> put_coll meta_target (coll_delete k mc) s2)
             in case get_coll s1' (db, coll) of None \<Rightarrow> (None, s1')
                | Some c \<Rightarrow> (None, put_coll (db, coll) (coll_delete k c) s1'))"
    using assms by (simp add: remove_def k_def [symmetric] t)
  then have again: "remove document_id ns t s2 = (None, s2)"
    unfolding i1 Let_def i2 .
  show ?thesis
    unfolding k_def [symmetric] using r [of t] m2 g2 again by blast
qed

theorem remove_twice_witness:
  "db_and_collection test_namespace = Some (''test_db'', ''test_collection'')
   \<and> coll_has ''111a.'' [john_stored]
   \<and> get_coll john_store (''test_db'', ''test_collection'') = Some [john_stored]
   \<and> (\<exists>s'. remove (VStr ''111a.'') test_namespace 6 john_store = (None, s')
          \<and> meta_collection s' = []
          \<and> get_coll s' (''test_db'', ''test_collection'') = Some []
          \<and> remove (VStr ''111a.'') test_namespace 6 s' = (None, s'))"
proof -
  have r: "remove (VStr ''111a.'') test_namespace 6 john_store
             = (None, john_store\<lparr>store_colls := [((''mongodb_meta'', ''mongodb_data''), []),
                                                   ((''test_db'', ''test_collection''), [])]\<rparr>)"
    by code_simp
  have h: "coll_has ''111a.'' [john_stored]" by code_simp
  have g: "get_coll john_store (''test_db'', ''test_collection'') = Some [john_stored]" by code_simp
  from remove_twice [OF test_namespace_split, of "VStr ''111a.''" 6 john_store]
  obtain s' where s': "remove (VStr ''111a.'') test_namespace 6 john_store = (None, s')"
    and again: "remove (VStr ''111a.'') test_namespace 6 s' = (None, s')"
    by blast
  from s' r have "s' = john_store\<lparr>store_colls := [((''mongodb_meta'', ''mongodb_data''), []),
                                                   ((''test_db'', ''test_collection''), [])]\<rparr>"
    by simp
  then have "meta_collection s' = []" and "get_coll s' (''test_db'', ''test_collection'') = Some []"
    by (simp_all add: get_coll_def meta_collection_def meta_target_def)
  with s' again test_namespace_split h g show ?thesis by blast
qed

section \<open>Update of a missing document\<close>

lemma replaced_find_key_ns:
  "coll_find [(''_key'', VStr k), (''ns'', VStr ns)]
      (map (\<lambda>x. if map_of x ''_key'' = Some (VStr k)
                 then [(''_key'', VStr k), (''_ts'', VInt t), (''ns'', VStr ns)] else x) c)
     = map (\<lambda>_. [(''_key'', VStr k), (''_ts'', VInt t), (''ns'', VStr ns)])
         (coll_find [(''_key'', VStr k)] c)"
  unfolding coll_find_key coll_find_key_ns by (induction c) auto

lemma coll_replace_meta:
  assumes "coll_find [(''_key'', VStr k)] c \<noteq> []"
  shows "coll_replace [(''_key'', VStr k), (''_ts'', VInt t), (''ns'', VStr ns)] c
     = Inr (map (\<lambda>x. if map_of x ''_key'' = Some (VStr k)
                       then [(''_key'', VStr k), (''_ts'', VInt t), (''ns'', VStr ns)] else x) c)"
  using assms by (simp add: coll_replace_def py_get_def)

lemma find_key_ns_nonempty:
  "coll_find [(''_key'', v), (''ns'', w)] c \<noteq> [] \<Longrightarrow> coll_find [(''_key'', v)] c \<noteq> []"
  unfolding coll_find_key coll_find_key_ns by (auto simp: filter_empty_conv)

text \<open>
  C8. \<^verbatim>\<open>update\<close> finds a metadata record for the encoded key and the namespace, and the
  target collection holds no document under the key. Then the call returns without an
  error, and the store it leaves differs from the one it found in two places only. In the
  metadata collection every record under the key is now
  \<^verbatim>\<open>{"_key": key, "_ts": t, "ns": ns}\<close>, stamped with the timestamp of the call; and the
  log has one more line, which names the key as missing in ArangoDB. The target collection
  is as it was: no document has been written for the patch.
\<close>

theorem update_missing_document:
  assumes "db_and_collection ns = Some target"
    and "coll_find [(''_key'', VStr (pre_process_id document_id)), (''ns'', VStr ns)]
           (meta_collection s) \<noteq> []"
    and "get_coll s target = Some c"
    and "coll_find [(''_key'', VStr (pre_process_id document_id))] c = []"
  shows "update document_id update_spec ns t s
           = (None,
              (put_coll meta_target
                 (map (\<lambda>x. if map_of x ''_key'' = Some (VStr (pre_process_id document_id))
                            then [(''_key'', VStr (pre_process_id document_id)), (''_ts'', VInt t),
                                  (''ns'', VStr ns)]
                            else x) (meta_collection s)) s)
              \<lparr>log_lines := log_lines s @
                 [''The document '' @ pre_process_id document_id
                   @ '', which you are trying to update                 is missing in ArangoDB'']\<rparr>)
         \<and> coll_find [(''_key'', VStr (pre_process_id document_id)), (''ns'', VStr ns)]
             (map (\<lambda>x. if map_of x ''_key'' = Some (VStr (pre_process_id document_id))
                        then [(''_key'', VStr (pre_process_id document_id)), (''_ts'', VInt t),
                              (''ns'', VStr ns)]
                        else x) (meta_collection s))
             = map (\<lambda>_. [(''_key'', VStr (pre_process_id document_id)), (''_ts'', VInt t),
                          (''ns'', VStr ns)])
                 (coll_find [(''_key'', VStr (pre_process_id document_id))] (meta_collection s))
         \<and> coll_find [(''_key'', VStr (pre_process_id document_id))] (meta_collection s) \<noteq> []
         \<and> target \<noteq> meta_target"
proof -
  define k where "k = pre_process_id document_id"
  obtain db coll where t: "target = (db, coll)" by (cases target) auto
  from assms(2) obtain mc where mc: "get_coll s meta_target = Some mc"
    by (auto simp: meta_collection_def coll_find_def split: option.splits)
  then have ms: "meta_collection s = mc" by (rule meta_collection_Some)
  have cur: "coll_find [(''_key'', VStr k), (''ns'', VStr ns)] mc \<noteq> []"
    using assms(2) by (simp add: k_def ms)
  then have ne: "coll_find [(''_key'', VStr k)] mc \<noteq> []" by (rule find_key_ns_nonempty)
  have tm: "target \<noteq> meta_target"
    using assms(3,4) mc ne by (auto simp: k_def)
  have "update document_id update_spec ns t s
           = (None,
              (put_coll meta_target
                 (map (\<lambda>x. if map_of x ''_key'' = Some (VStr k)
                            then [(''_key'', VStr k), (''_ts'', VInt t), (''ns'', VStr ns)]
                            else x) mc) s)
              \<lparr>log_lines := log_lines s @ [''The document '' @ k @ '', which you are trying to update                 is missing in ArangoDB'']\<rparr>)"
    using assms(1,3,4) tm cur
    by (simp add: update_def Let_def k_def [symmetric] t mc coll_replace_meta [OF ne])
  then show ?thesis
    unfolding k_def [symmetric] ms using ne tm by (simp add: replaced_find_key_ns)
qed

theorem update_missing_document_witness:
  "db_and_collection test_namespace = Some (''test_db'', ''test_collection'')
   \<and> coll_find [(''_key'', VStr (pre_process_id (VStr ''111a''))), (''ns'', VStr test_namespace)]
        (meta_collection orphan_store) \<noteq> []
   \<and> get_coll orphan_store (''test_db'', ''test_collection'') = Some []
   \<and> update (VStr ''111a'') city_patch test_namespace 9 orphan_store
       = (None,
          \<lparr>store_dbs = [''mongodb_meta'', ''test_db''],
           store_colls = [((''mongodb_meta'', ''mongodb_data''),
                           [[(''_key'', VStr ''111a.''), (''_ts'', VInt 9), (''ns'', VStr test_namespace)]]),
                          ((''test_db'', ''test_collection''), [])],
           log_lines = [''The document 111a., which you are trying to update                 is missing in ArangoDB'']\<rparr>)"
proof -
  have h2: "coll_find [(''_key'', VStr (pre_process_id (VStr ''111a''))), (''ns'', VStr test_namespace)]
        (meta_collection orphan_store) \<noteq> []"
    by code_simp
  have h3: "get_coll orphan_store (''test_db'', ''test_collection'') = Some []" by code_simp
  have h4: "coll_find [(''_key'', VStr (pre_process_id (VStr ''111a'')))] [] = []" by code_simp
  have e: "(put_coll meta_target
                 (map (\<lambda>x. if map_of x ''_key'' = Some (VStr (pre_process_id (VStr ''111a'')))
                            then [(''_key'', VStr (pre_process_id (VStr ''111a''))), (''_ts'', VInt 9),
                                  (''ns'', VStr test_namespace)]
                            else x) (meta_collection orphan_store)) orphan_store)
              \<lparr>log_lines := log_lines orphan_store @
                 [''The document '' @ pre_process_id (VStr ''111a'')
                   @ '', which you are trying to update                 is missing in ArangoDB'']\<rparr>
          = \<lparr>store_dbs = [''mongodb_meta'', ''test_db''],
           store_colls = [((''mongodb_meta'', ''mongodb_data''),
                           [[(''_key'', VStr ''111a.''), (''_ts'', VInt 9), (''ns'', VStr test_namespace)]]),
                          ((''test_db'', ''test_collection''), [])],
           log_lines = [''The document 111a., which you are trying to update                 is missing in ArangoDB'']\<rparr>"
    by code_simp
  from update_missing_document [OF test_namespace_split h2 h3 h4, of city_patch 9]
  have "update (VStr ''111a'') city_patch test_namespace 9 orphan_store
       = (None,
          \<lparr>store_dbs = [''mongodb_meta'', ''test_db''],
           store_colls = [((''mongodb_meta'', ''mongodb_data''),
                           [[(''_key'', VStr ''111a.''), (''_ts'', VInt 9), (''ns'', VStr test_namespace)]]),
                          ((''test_db'', ''test_collection''), [])],
           log_lines = [''The document 111a., which you are trying to update                 is missing in ArangoDB'']\<rparr>)"
    unfolding e by (rule conjunct1)
  with test_namespace_split h2 h3 show ?thesis by (intro conjI)
qed

section \<open>Update of a present document\<close>









section \<open>The range query\<close>

lemma three_upserts:
  "upsert_all [([(''_id'', VStr ''1''), (''name'', VStr ''John'')], test_namespace, T1),
               ([(''_id'', VStr ''2''), (''name'', VStr ''Sam'')], test_namespace, T2),
               ([(''_id'', VStr ''3''), (''name'', VStr ''Peter'')], test_namespace, T3)] empty_store
     = (None,
        \<lparr>store_dbs = [''mongodb_meta'', ''test_db''],
         store_colls = [((''mongodb_meta'', ''mongodb_data''),
                         [meta_doc ''1.'' T1 test_namespace, meta_doc ''2.'' T2 test_namespace,
                          meta_doc ''3.'' T3 test_namespace]),
                        ((''test_db'', ''test_collection''),
                         [[(''name'', VStr ''John''), (''_key'', VStr ''1.'')],
                          [(''name'', VStr ''Sam''), (''_key'', VStr ''2.'')],
                          [(''name'', VStr ''Peter''), (''_key'', VStr ''3.'')]])],
         log_lines = []\<rparr>)"
  by (simp add: upsert_def handle_command_def db_and_collection_def test_namespace_def py_get_def
      py_pop_def py_in_def py_set_def pre_process_id_def coll_find_def matches_def coll_insert_def
      coll_replace_def coll_has_def get_coll_def put_coll_def check_if_database_exists_def
      check_if_collection_exists_def create_database_def create_collection_def meta_doc_def
      empty_store_eq meta_target_def Let_def)

text \<open>
  C5. \<^verbatim>\<open>search(start_ts, end_ts)\<close> yields a record exactly when it is a record of the
  metadata collection, of whatever namespace, whose timestamp lies between the two
  bounds, both included. After three upserts at timestamps \<open>T1 < T2 < T3\<close> into the empty
  store, \<^verbatim>\<open>search(T1, T2)\<close> yields the records of the first two and not the third.
  The store's range query is \<open>find_in_range\<close>.
\<close>

theorem search_range:
  "(r \<in> set (search start_ts end_ts s) \<longleftrightarrow>
      r \<in> set (meta_collection s)
      \<and> (\<exists>t. map_of r ''_ts'' = Some (VInt t) \<and> start_ts \<le> t \<and> t \<le> end_ts))
   \<and> (T1 < T2 \<and> T2 < T3 \<longrightarrow>
        (\<exists>s3. upsert_all [([(''_id'', VStr ''1''), (''name'', VStr ''John'')], test_namespace, T1),
                          ([(''_id'', VStr ''2''), (''name'', VStr ''Sam'')], test_namespace, T2),
                          ([(''_id'', VStr ''3''), (''name'', VStr ''Peter'')], test_namespace, T3)]
                 empty_store = (None, s3)
           \<and> search T1 T2 s3 = [meta_doc ''1.'' T1 test_namespace, meta_doc ''2.'' T2 test_namespace]))"
proof (intro conjI impI)
  show "r \<in> set (search start_ts end_ts s) \<longleftrightarrow>
      r \<in> set (meta_collection s)
      \<and> (\<exists>t. map_of r ''_ts'' = Some (VInt t) \<and> start_ts \<le> t \<and> t \<le> end_ts)"
    by (auto simp: search_def find_in_range_def split: option.splits val.splits)
next
  assume "T1 < T2 \<and> T2 < T3"
  then show "\<exists>s3. upsert_all [([(''_id'', VStr ''1''), (''name'', VStr ''John'')], test_namespace, T1),
                          ([(''_id'', VStr ''2''), (''name'', VStr ''Sam'')], test_namespace, T2),
                          ([(''_id'', VStr ''3''), (''name'', VStr ''Peter'')], test_namespace, T3)]
                 empty_store = (None, s3)
           \<and> search T1 T2 s3 = [meta_doc ''1.'' T1 test_namespace, meta_doc ''2.'' T2 test_namespace]"
    unfolding three_upserts
    by (simp add: search_def find_in_range_def meta_collection_def get_coll_def meta_target_def
        meta_doc_def)
qed

theorem search_range_witness:
  "(1521056476::int) < 1521142876 \<and> (1521142876::int) < 1521229276
   \<and> (\<exists>s3. upsert_all [([(''_id'', VStr ''1''), (''name'', VStr ''John'')], test_namespace, 1521056476),
                       ([(''_id'', VStr ''2''), (''name'', VStr ''Sam'')], test_namespace, 1521142876),
                       ([(''_id'', VStr ''3''), (''name'', VStr ''Peter'')], test_namespace, 1521229276)]
              empty_store = (None, s3)
        \<and> search 1521056476 1521142876 s3
            = [meta_doc ''1.'' 1521056476 test_namespace, meta_doc ''2.'' 1521142876 test_namespace]
        \<and> meta_doc ''3.'' 1521229276 test_namespace \<notin> set (search 1521056476 1521142876 s3))"
proof -
  have h: "(1521056476::int) < 1521142876 \<and> (1521142876::int) < 1521229276" by simp
  from search_range [where ?T1.0 = 1521056476 and ?T2.0 = 1521142876 and ?T3.0 = 1521229276,
      THEN conjunct2, rule_format, OF h]
  obtain s3 where
    a: "upsert_all [([(''_id'', VStr ''1''), (''name'', VStr ''John'')], test_namespace, 1521056476),
                       ([(''_id'', VStr ''2''), (''name'', VStr ''Sam'')], test_namespace, 1521142876),
                       ([(''_id'', VStr ''3''), (''name'', VStr ''Peter'')], test_namespace, 1521229276)]
              empty_store = (None, s3)"
    and b: "search 1521056476 1521142876 s3
            = [meta_doc ''1.'' 1521056476 test_namespace, meta_doc ''2.'' 1521142876 test_namespace]"
    by blast
  have "meta_doc ''3.'' 1521229276 test_namespace \<notin> set (search 1521056476 1521142876 s3)"
    unfolding b by (simp add: meta_doc_def)
  with h a b show ?thesis by blast
qed

section \<open>The last document\<close>






lemma doc_ts_meta_doc [simp]: "doc_ts (meta_doc k t ns) = Some t"
  by (simp add: doc_ts_def meta_doc_def)




section \<open>The bulk loader: properties\<close>





lemma bulk_doc_key [simp]: "map_of (bulk_doc d) ''_key'' = Some (VStr (pre_process_id (py_get d ''_id'')))"
  by (simp add: bulk_doc_def map_of_py_set)

lemma bulk_meta_of_key [simp]:
  "map_of (bulk_meta_of ns ts d) ''_key'' = Some (VStr (pre_process_id (py_get d ''_id'')))"
  by (simp add: bulk_meta_of_def)












section \<open>The metadata invariant and remove\<close>

text \<open>
  C1. The invariant of the metadata collection: every document of a target collection
  has exactly one metadata record with its key and its namespace. A successful upsert
  sets it up for its key (\<open>upsert_stored_doc\<close>, \<open>upsert_meta\<close>), but \<^verbatim>\<open>remove\<close> does not keep it.
  \<^verbatim>\<open>upsert\<close> and \<^verbatim>\<open>update\<close> look the record up by key and namespace; \<^verbatim>\<open>remove\<close>
  deletes it by key alone. After upserts of id \<^verbatim>\<open>111a\<close> into
  \<^verbatim>\<open>test_db.test_collection\<close> and of id \<^verbatim>\<open>2\<close> into \<^verbatim>\<open>test_db.other\<close>, the call
  \<^verbatim>\<open>remove("111a", "test_db.other", 7)\<close> returns, the document \<^verbatim>\<open>111a.\<close> is still in
  \<^verbatim>\<open>test_db.test_collection\<close>, and its metadata record, present before the call, is gone.
\<close>

theorem remove_other_namespace:
  "fst (upsert_all [(john, test_namespace, 5), ([(''_id'', VStr ''2'')], ''test_db.other'', 6)]
          empty_store) = None
   \<and> (let s2 = snd (upsert_all [(john, test_namespace, 5), ([(''_id'', VStr ''2'')], ''test_db.other'', 6)]
                     empty_store);
           r = remove (VStr ''111a'') ''test_db.other'' 7 s2
       in get_coll s2 (''test_db'', ''test_collection'') = Some [john_stored]
          \<and> coll_find [(''_key'', VStr ''111a.'')] (meta_collection s2)
              = [meta_doc ''111a.'' 5 test_namespace]
          \<and> fst r = None
          \<and> get_coll (snd r) (''test_db'', ''test_collection'') = Some [john_stored]
          \<and> coll_find [(''_key'', VStr ''111a.'')] (meta_collection (snd r)) = []
          \<and> meta_collection (snd r) = [meta_doc ''2.'' 6 ''test_db.other''])"
  by code_simp

end
